theory Spec2Isabelle
  imports Main
begin

section \<open>Data model of the commander state machine\<close>

text \<open>
  Modelled from the spec: the headers \<^verbatim>\<open>uORB/topics/vehicle_status.h\<close>,
  \<^verbatim>\<open>uORB/topics/safety.h\<close>, \<^verbatim>\<open>uORB/topics/actuator_armed.h\<close> and
  \<^verbatim>\<open>state_machine_helper.h\<close> that declare the enumerations and structs below are
  not among the sources. The enumerators are the ones \<^verbatim>\<open>state_machine_helper.cpp\<close>
  names; the arming states come in the order of the column comment of
  \<^verbatim>\<open>arming_transitions\<close> and of \<^verbatim>\<open>state_names\<close>, closed by
  \<^verbatim>\<open>ARMING_STATE_MAX\<close>, the array dimension
  (\<^verbatim>\<open>ASSERT(ARMING_STATE_IN_AIR_RESTORE == ARMING_STATE_MAX - 1)\<close>). The struct
  fields are the ones the functions read or write.
\<close>

datatype arming_state_t =
    ARMING_STATE_INIT
  | ARMING_STATE_STANDBY
  | ARMING_STATE_ARMED
  | ARMING_STATE_ARMED_ERROR
  | ARMING_STATE_STANDBY_ERROR
  | ARMING_STATE_REBOOT
  | ARMING_STATE_IN_AIR_RESTORE
  | ARMING_STATE_MAX

datatype main_state_t =
    MAIN_STATE_MANUAL
  | MAIN_STATE_ALTCTL
  | MAIN_STATE_POSCTL
  | MAIN_STATE_AUTO_MISSION
  | MAIN_STATE_AUTO_LOITER
  | MAIN_STATE_AUTO_RTL
  | MAIN_STATE_ACRO
  | MAIN_STATE_MAX

datatype navigation_state_t =
    NAVIGATION_STATE_MANUAL
  | NAVIGATION_STATE_ALTCTL
  | NAVIGATION_STATE_POSCTL
  | NAVIGATION_STATE_AUTO_MISSION
  | NAVIGATION_STATE_AUTO_LOITER
  | NAVIGATION_STATE_AUTO_RTL
  | NAVIGATION_STATE_ACRO
  | NAVIGATION_STATE_LAND
  | NAVIGATION_STATE_DESCEND
  | NAVIGATION_STATE_TERMINATION

datatype hil_state_t = HIL_STATE_OFF | HIL_STATE_ON

datatype transition_result_t =
    TRANSITION_DENIED
  | TRANSITION_NOT_CHANGED
  | TRANSITION_CHANGED

record vehicle_status_s =
  arming_state :: arming_state_t
  main_state :: main_state_t
  nav_state :: navigation_state_t
  hil_state :: hil_state_t
  failsafe :: bool
  condition_system_sensors_initialized :: bool
  condition_local_position_valid :: bool
  condition_global_position_valid :: bool
  condition_local_altitude_valid :: bool
  condition_home_position_valid :: bool
  is_rotary_wing :: bool
  rc_signal_lost :: bool
  data_link_lost :: bool
  timestamp :: nat

record safety_s =
  safety_switch_available :: bool
  safety_off :: bool

record actuator_armed_s =
  armed :: bool
  ready_to_arm :: bool
  lockdown :: bool

text \<open>
  What a call does besides returning and updating the records it was handed: the
  messages it sends and the device and publication calls it makes, in program order.
  A message carries its text after formatting; \<^verbatim>\<open>mavlink_log_*\<close> also carries
  the descriptor it writes to.
\<close>

datatype effect =
    Mavlink_log_critical int string
  | Mavlink_log_info int string
  | Warnx string
  | Warn string
  | Printf string
  | Ioctl_pubblock string
  | Orb_publish int vehicle_status_s

text \<open>
  C does not check an index. A read past the end of an array is undefined behaviour
  and is a fault of the model, so that no result is claimed for it.
\<close>

datatype fault = Out_of_bounds_read

definition array_read :: "'a list \<Rightarrow> nat \<Rightarrow> fault + 'a" where
  "array_read xs i = (if i < length xs then Inr (xs ! i) else Inl Out_of_bounds_read)"

definition table_read :: "'a list list \<Rightarrow> nat \<Rightarrow> nat \<Rightarrow> fault + 'a" where
  "table_read t i j =
     (case array_read t i of
        Inl f \<Rightarrow> Inl f
      | Inr row \<Rightarrow> array_read row j)"

section \<open>Arming state machine\<close>

text \<open>The value of each enumerator, which is what indexes the two static arrays.\<close>

fun arming_index :: "arming_state_t \<Rightarrow> nat" where
  "arming_index ARMING_STATE_INIT = 0"
| "arming_index ARMING_STATE_STANDBY = 1"
| "arming_index ARMING_STATE_ARMED = 2"
| "arming_index ARMING_STATE_ARMED_ERROR = 3"
| "arming_index ARMING_STATE_STANDBY_ERROR = 4"
| "arming_index ARMING_STATE_REBOOT = 5"
| "arming_index ARMING_STATE_IN_AIR_RESTORE = 6"
| "arming_index ARMING_STATE_MAX = 7"

text \<open>
  Rows are the new state, columns the current state, both in the order \<^verbatim>\<open>INIT\<close>,
  \<^verbatim>\<open>STANDBY\<close>, \<^verbatim>\<open>ARMED\<close>, \<^verbatim>\<open>ARMED_ERROR\<close>, \<^verbatim>\<open>STANDBY_ERROR\<close>,
  \<^verbatim>\<open>REBOOT\<close>, \<^verbatim>\<open>IN_AIR_RESTORE\<close>.
\<close>

definition arming_transitions :: "bool list list" where
  "arming_transitions =
    [ [True,  True,  False, False, False, False, False],
      [True,  True,  True,  True,  False, False, False],
      [False, True,  True,  False, False, False, True],
      [False, False, True,  True,  False, False, False],
      [True,  True,  False, True,  True,  False, False],
      [True,  True,  False, False, True,  True,  True],
      [False, False, False, False, False, False, False] ]"

definition state_names :: "string list" where
  "state_names =
    [ ''ARMING_STATE_INIT'',
      ''ARMING_STATE_STANDBY'',
      ''ARMING_STATE_ARMED'',
      ''ARMING_STATE_ARMED_ERROR'',
      ''ARMING_STATE_STANDBY_ERROR'',
      ''ARMING_STATE_REBOOT'',
      ''ARMING_STATE_IN_AIR_RESTORE'' ]"

text \<open>
  \<^verbatim>\<open>arming_state_transition\<close>. The records behind the pointers \<^verbatim>\<open>status\<close> and
  \<^verbatim>\<open>armed\<close> are returned updated, with the effects. \<^verbatim>\<open>lockdown\<close> is written
  before the table is consulted; \<^verbatim>\<open>valid_transition\<close> and \<^verbatim>\<open>new_arming_state\<close>
  are reassigned along the way, which the numbered names follow.
\<close>

definition arming_state_transition ::
  "vehicle_status_s \<Rightarrow> safety_s \<Rightarrow> arming_state_t \<Rightarrow> actuator_armed_s \<Rightarrow> int \<Rightarrow>
     fault + (transition_result_t \<times> vehicle_status_s \<times> actuator_armed_s \<times> effect list)" where
  "arming_state_transition status safety new_arming_state armd mavlink_fd =
    (if new_arming_state = arming_state status then
       Inr (TRANSITION_NOT_CHANGED, status, armd, [])
     else
       let armd1 = (if hil_state status = HIL_STATE_ON
                    then armd\<lparr>lockdown := True\<rparr> else armd\<lparr>lockdown := False\<rparr>)
       in
       case table_read arming_transitions
              (arming_index new_arming_state) (arming_index (arming_state status)) of
         Inl f \<Rightarrow> Inl f
       | Inr valid_transition0 \<Rightarrow>
           let (valid_transition1, new_arming_state1, log1) =
                 (if valid_transition0 then
                    (if new_arming_state = ARMING_STATE_ARMED then
                       (if arming_state status \<noteq> ARMING_STATE_IN_AIR_RESTORE
                           \<and> hil_state status = HIL_STATE_OFF
                           \<and> safety_switch_available safety
                           \<and> \<not> safety_off safety
                        then (False, new_arming_state,
                              if mavlink_fd \<noteq> 0
                              then [Mavlink_log_critical mavlink_fd
                                      ''#audio: NOT ARMING: Press safety switch first.'']
                              else [])
                        else (valid_transition0, new_arming_state, []))
                     else if new_arming_state = ARMING_STATE_STANDBY
                             \<and> arming_state status = ARMING_STATE_ARMED_ERROR
                     then (valid_transition0, ARMING_STATE_STANDBY_ERROR, [])
                     else (valid_transition0, new_arming_state, []))
                  else (valid_transition0, new_arming_state, []));
               valid_transition2 =
                 (if hil_state status = HIL_STATE_ON
                     \<and> new_arming_state1 = ARMING_STATE_STANDBY
                  then True else valid_transition1);
               valid_transition3 =
                 (if new_arming_state1 = ARMING_STATE_STANDBY
                     \<and> \<not> condition_system_sensors_initialized status
                  then False else valid_transition2)
           in
           if valid_transition3 then
             Inr (TRANSITION_CHANGED,
                  status\<lparr>arming_state := new_arming_state1\<rparr>,
                  armd1\<lparr>armed := (new_arming_state1 = ARMING_STATE_ARMED
                                   \<or> new_arming_state1 = ARMING_STATE_ARMED_ERROR),
                         ready_to_arm := (new_arming_state1 = ARMING_STATE_ARMED
                                   \<or> new_arming_state1 = ARMING_STATE_STANDBY)\<rparr>,
                  log1)
           else
             (case array_read state_names (arming_index (arming_state status)) of
                Inl f \<Rightarrow> Inl f
              | Inr name_from \<Rightarrow>
                  (case array_read state_names (arming_index new_arming_state1) of
                     Inl f \<Rightarrow> Inl f
                   | Inr name_to \<Rightarrow>
                       let errMsg = ''Invalid arming transition from '' @ name_from
                                      @ '' to '' @ name_to
                       in Inr (TRANSITION_DENIED, status, armd1,
                               log1
                               @ (if mavlink_fd \<noteq> 0
                                  then [Mavlink_log_critical mavlink_fd errMsg] else [])
                               @ [Warnx errMsg]))))"

section \<open>Safety interlock\<close>

definition is_safe :: "vehicle_status_s \<Rightarrow> safety_s \<Rightarrow> actuator_armed_s \<Rightarrow> bool" where
  "is_safe status safety armd =
    (if \<not> armed armd \<or> (armed armd \<and> lockdown armd)
        \<or> (safety_switch_available safety \<and> \<not> safety_off safety)
     then True else False)"

section \<open>Main state selector\<close>

definition main_state_transition ::
  "vehicle_status_s \<Rightarrow> main_state_t \<Rightarrow> transition_result_t \<times> vehicle_status_s" where
  "main_state_transition status new_main_state =
    (let ret =
       (case new_main_state of
          MAIN_STATE_MANUAL \<Rightarrow> TRANSITION_CHANGED
        | MAIN_STATE_ACRO \<Rightarrow> TRANSITION_CHANGED
        | MAIN_STATE_ALTCTL \<Rightarrow>
            (if \<not> is_rotary_wing status
                \<or> (condition_local_altitude_valid status
                    \<or> condition_global_position_valid status)
             then TRANSITION_CHANGED else TRANSITION_DENIED)
        | MAIN_STATE_POSCTL \<Rightarrow>
            (if condition_local_position_valid status
                \<or> condition_global_position_valid status
             then TRANSITION_CHANGED else TRANSITION_DENIED)
        | MAIN_STATE_AUTO_MISSION \<Rightarrow>
            (if condition_global_position_valid status
             then TRANSITION_CHANGED else TRANSITION_DENIED)
        | MAIN_STATE_AUTO_LOITER \<Rightarrow>
            (if condition_global_position_valid status
             then TRANSITION_CHANGED else TRANSITION_DENIED)
        | MAIN_STATE_AUTO_RTL \<Rightarrow>
            (if condition_global_position_valid status
                \<and> condition_home_position_valid status
             then TRANSITION_CHANGED else TRANSITION_DENIED)
        | MAIN_STATE_MAX \<Rightarrow> TRANSITION_DENIED)
     in
     if ret = TRANSITION_CHANGED then
       (if main_state status \<noteq> new_main_state
        then (ret, status\<lparr>main_state := new_main_state\<rparr>)
        else (TRANSITION_NOT_CHANGED, status))
     else (ret, status))"

section \<open>HIL state transition\<close>

text \<open>
  The loop over the entries of \<^verbatim>\<open>/dev\<close>. The operating system is a parameter:
  \<open>dev_open\<close> tells whether \<^verbatim>\<open>::open\<close> of a path succeeds, \<open>dev_ioctl\<close> whether
  \<^verbatim>\<open>DEVIOCSPUBBLOCK\<close> on it returns \<^verbatim>\<open>OK\<close>. \<^verbatim>\<open>snprintf\<close> into
  \<^verbatim>\<open>char devname[24]\<close> keeps 23 characters.
\<close>

fun block_sensors :: "(string \<Rightarrow> bool) \<Rightarrow> (string \<Rightarrow> bool) \<Rightarrow> string list \<Rightarrow> effect list" where
  "block_sensors dev_open dev_ioctl [] = []"
| "block_sensors dev_open dev_ioctl (d_name # rest) =
    (if take 3 d_name = ''tty'' then block_sensors dev_open dev_ioctl rest
     else if take 3 d_name = ''mtd'' then block_sensors dev_open dev_ioctl rest
     else if take 3 d_name = ''ram'' then block_sensors dev_open dev_ioctl rest
     else if take 3 d_name = ''mmc'' then block_sensors dev_open dev_ioctl rest
     else if d_name = ''mavlink'' then block_sensors dev_open dev_ioctl rest
     else if d_name = ''console'' then block_sensors dev_open dev_ioctl rest
     else if d_name = ''null'' then block_sensors dev_open dev_ioctl rest
     else
       let devname = take 23 (''/dev/'' @ d_name) in
       if \<not> dev_open devname then
         Warn (''failed opening device '' @ devname)
           # block_sensors dev_open dev_ioctl rest
       else
         Ioctl_pubblock devname
           # Printf (''Disabling '' @ devname @ '': ''
                     @ (if dev_ioctl devname then ''OK'' else ''ERROR'') @ [CHR 0x0A])
           # block_sensors dev_open dev_ioctl rest)"

text \<open>
  \<^verbatim>\<open>hil_state_transition\<close>. \<open>dev_dir\<close> is what \<^verbatim>\<open>opendir("/dev")\<close> and
  \<^verbatim>\<open>readdir\<close> yield (\<open>None\<close> when the directory cannot be opened), \<open>now\<close> what
  \<^verbatim>\<open>hrt_absolute_time()\<close> returns. The type \<^typ>\<open>hil_state_t\<close> has the two
  enumerators, so the \<^verbatim>\<open>default\<close> branch of the switch has no input.
\<close>

definition hil_state_transition ::
  "hil_state_t \<Rightarrow> int \<Rightarrow> vehicle_status_s \<Rightarrow> int \<Rightarrow>
     string list option \<Rightarrow> (string \<Rightarrow> bool) \<Rightarrow> (string \<Rightarrow> bool) \<Rightarrow> nat \<Rightarrow>
     transition_result_t \<times> vehicle_status_s \<times> effect list" where
  "hil_state_transition new_state status_pub current_status mavlink_fd
                        dev_dir dev_open dev_ioctl now =
    (let (ret, log) =
       (if hil_state current_status = new_state then (TRANSITION_NOT_CHANGED, [])
        else
          (case new_state of
             HIL_STATE_OFF \<Rightarrow>
               (TRANSITION_DENIED,
                [Mavlink_log_critical mavlink_fd ''#audio: Not switching off HIL (safety)''])
           | HIL_STATE_ON \<Rightarrow>
               (if arming_state current_status = ARMING_STATE_INIT
                   \<or> arming_state current_status = ARMING_STATE_STANDBY
                   \<or> arming_state current_status = ARMING_STATE_STANDBY_ERROR
                then
                  (case dev_dir of
                     Some entries \<Rightarrow>
                       (TRANSITION_CHANGED,
                        block_sensors dev_open dev_ioctl entries
                        @ [Mavlink_log_critical mavlink_fd ''Switched to ON hil state''])
                   | None \<Rightarrow>
                       (TRANSITION_DENIED,
                        [Mavlink_log_info mavlink_fd
                           ''FAILED LISTING DEVICE ROOT DIRECTORY'']))
                else
                  (TRANSITION_DENIED,
                   [Mavlink_log_critical mavlink_fd ''Not switching to HIL when armed'']))))
     in
     if ret = TRANSITION_CHANGED then
       (let current_status1 = current_status\<lparr>hil_state := new_state, timestamp := now\<rparr>
        in (ret, current_status1, log @ [Orb_publish status_pub current_status1]))
     else (ret, current_status, log))"

section \<open>Navigation and failsafe resolver\<close>

definition set_nav_state :: "vehicle_status_s \<Rightarrow> bool \<times> vehicle_status_s" where
  "set_nav_state status =
    (let nav_state_old = nav_state status;
         is_armed = (arming_state status = ARMING_STATE_ARMED
                     \<or> arming_state status = ARMING_STATE_ARMED_ERROR);
         status1 = status\<lparr>failsafe := False\<rparr>;
         manual_modes =
           (if rc_signal_lost status1 \<and> is_armed then status1\<lparr>failsafe := True\<rparr>
            else
              (case main_state status1 of
                 MAIN_STATE_ACRO \<Rightarrow> status1\<lparr>nav_state := NAVIGATION_STATE_ACRO\<rparr>
               | MAIN_STATE_MANUAL \<Rightarrow> status1\<lparr>nav_state := NAVIGATION_STATE_MANUAL\<rparr>
               | MAIN_STATE_ALTCTL \<Rightarrow> status1\<lparr>nav_state := NAVIGATION_STATE_ALTCTL\<rparr>
               | MAIN_STATE_POSCTL \<Rightarrow> status1\<lparr>nav_state := NAVIGATION_STATE_POSCTL\<rparr>
               | _ \<Rightarrow> status1\<lparr>nav_state := NAVIGATION_STATE_MANUAL\<rparr>));
         status2 =
           (case main_state status1 of
              MAIN_STATE_ACRO \<Rightarrow> manual_modes
            | MAIN_STATE_MANUAL \<Rightarrow> manual_modes
            | MAIN_STATE_ALTCTL \<Rightarrow> manual_modes
            | MAIN_STATE_POSCTL \<Rightarrow> manual_modes
            | MAIN_STATE_AUTO_MISSION \<Rightarrow>
                (if (data_link_lost status1 \<or> \<not> condition_global_position_valid status1)
                    \<and> is_armed
                 then status1\<lparr>failsafe := True\<rparr>
                 else if is_armed
                 then status1\<lparr>nav_state := NAVIGATION_STATE_AUTO_MISSION\<rparr>
                 else status1\<lparr>nav_state := NAVIGATION_STATE_AUTO_LOITER\<rparr>)
            | MAIN_STATE_AUTO_LOITER \<Rightarrow>
                (if (data_link_lost status1 \<or> \<not> condition_local_position_valid status1)
                    \<and> is_armed
                 then status1\<lparr>failsafe := True\<rparr>
                 else status1\<lparr>nav_state := NAVIGATION_STATE_AUTO_LOITER\<rparr>)
            | MAIN_STATE_AUTO_RTL \<Rightarrow>
                (if (\<not> condition_global_position_valid status1
                     \<or> \<not> condition_home_position_valid status1)
                    \<and> is_armed
                 then status1\<lparr>failsafe := True\<rparr>
                 else if is_armed
                 then status1\<lparr>nav_state := NAVIGATION_STATE_AUTO_RTL\<rparr>
                 else status1\<lparr>nav_state := NAVIGATION_STATE_AUTO_LOITER\<rparr>)
            | MAIN_STATE_MAX \<Rightarrow> status1);
         status3 =
           (if failsafe status2 then
              (if condition_global_position_valid status2
                  \<and> condition_home_position_valid status2
               then status2\<lparr>nav_state := NAVIGATION_STATE_AUTO_RTL\<rparr>
               else if condition_local_position_valid status2
               then status2\<lparr>nav_state := NAVIGATION_STATE_LAND\<rparr>
               else if condition_local_altitude_valid status2
               then status2\<lparr>nav_state := NAVIGATION_STATE_DESCEND\<rparr>
               else status2\<lparr>nav_state := NAVIGATION_STATE_TERMINATION\<rparr>)
            else status2)
     in (nav_state status3 \<noteq> nav_state_old, status3))"

section \<open>Sample inputs\<close>

definition status0 :: vehicle_status_s where
  "status0 =
    \<lparr> arming_state = ARMING_STATE_INIT, main_state = MAIN_STATE_MANUAL,
      nav_state = NAVIGATION_STATE_MANUAL, hil_state = HIL_STATE_OFF, failsafe = False,
      condition_system_sensors_initialized = False,
      condition_local_position_valid = False,
      condition_global_position_valid = False,
      condition_local_altitude_valid = False,
      condition_home_position_valid = False,
      is_rotary_wing = True, rc_signal_lost = False, data_link_lost = False,
      timestamp = 0 \<rparr>"

definition safety_engaged :: safety_s where
  "safety_engaged = \<lparr> safety_switch_available = True, safety_off = False \<rparr>"

definition safety_disengaged :: safety_s where
  "safety_disengaged = \<lparr> safety_switch_available = True, safety_off = True \<rparr>"

definition disarmed :: actuator_armed_s where
  "disarmed = \<lparr> armed = False, ready_to_arm = False, lockdown = False \<rparr>"

section \<open>Properties of the arming state machine\<close>

lemmas arming_defs =
  arming_state_transition_def table_read_def array_read_def
  arming_transitions_def state_names_def Let_def

lemmas sample_defs = status0_def safety_engaged_def safety_disengaged_def disarmed_def

text \<open>
  On the seven defined states the function returns: both indices are inside the
  table and inside \<^verbatim>\<open>state_names\<close>.
\<close>

lemma arming_defined_states_return:
  assumes "arming_state status \<noteq> ARMING_STATE_MAX"
      and "new_arming_state \<noteq> ARMING_STATE_MAX"
  shows "\<exists>ret status' armd' log.
           arming_state_transition status safety new_arming_state armd mavlink_fd
             = Inr (ret, status', armd', log)"
  using assms
  by (cases "arming_state status"; cases new_arming_state)
     (simp_all add: arming_defs split: if_splits)

subsection \<open>C1: what a call that does not return CHANGED leaves behind\<close>

text \<open>
  In HIL, a request that the table rejects (\<^verbatim>\<open>ARMED_ERROR\<close> from \<^verbatim>\<open>INIT\<close>)
  returns \<^verbatim>\<open>TRANSITION_DENIED\<close> and has switched \<^verbatim>\<open>armed->lockdown\<close> on: the
  armed record is not left as it was.
\<close>

theorem denied_writes_lockdown:
  "arming_state_transition (status0\<lparr>hil_state := HIL_STATE_ON\<rparr>) safety_engaged
       ARMING_STATE_ARMED_ERROR disarmed 0
     = Inr (TRANSITION_DENIED, status0\<lparr>hil_state := HIL_STATE_ON\<rparr>,
            disarmed\<lparr>lockdown := True\<rparr>,
            [Warnx ''Invalid arming transition from ARMING_STATE_INIT to ARMING_STATE_ARMED_ERROR''])
   \<and> disarmed\<lparr>lockdown := True\<rparr> \<noteq> disarmed"
  by (simp add: arming_defs sample_defs)

text \<open>
  C1, amended. A call that returns anything but \<^verbatim>\<open>TRANSITION_CHANGED\<close> hands back
  the vehicle status as it was, and \<^verbatim>\<open>armed\<close> and \<^verbatim>\<open>ready_to_arm\<close> as they
  were. On \<^verbatim>\<open>TRANSITION_NOT_CHANGED\<close> the whole armed record is as it was; on
  \<^verbatim>\<open>TRANSITION_DENIED\<close> its \<^verbatim>\<open>lockdown\<close> field has been set to whether HIL
  is on, which is done for every request of a state other than the current one before
  the request is validated.
\<close>

theorem not_changed_keeps_status:
  assumes "arming_state_transition status safety new_arming_state armd mavlink_fd
             = Inr (ret, status', armd', log)"
      and "ret \<noteq> TRANSITION_CHANGED"
  shows "status' = status
       \<and> armed armd' = armed armd
       \<and> ready_to_arm armd' = ready_to_arm armd
       \<and> (ret = TRANSITION_NOT_CHANGED \<longrightarrow> armd' = armd)
       \<and> (ret = TRANSITION_DENIED \<longrightarrow>
            armd' = armd\<lparr>lockdown := (hil_state status = HIL_STATE_ON)\<rparr>)"
  using assms
  by (auto simp add: arming_state_transition_def Let_def
           split: if_splits sum.splits prod.splits)

theorem not_changed_keeps_status_witness:
  "arming_state_transition (status0\<lparr>arming_state := ARMING_STATE_REBOOT\<rparr>) safety_disengaged
       ARMING_STATE_INIT (disarmed\<lparr>lockdown := True\<rparr>) 0
     = Inr (TRANSITION_DENIED, status0\<lparr>arming_state := ARMING_STATE_REBOOT\<rparr>, disarmed,
            [Warnx ''Invalid arming transition from ARMING_STATE_REBOOT to ARMING_STATE_INIT''])
   \<and> TRANSITION_DENIED \<noteq> TRANSITION_CHANGED
   \<and> armed disarmed = armed (disarmed\<lparr>lockdown := True\<rparr>)
   \<and> ready_to_arm disarmed = ready_to_arm (disarmed\<lparr>lockdown := True\<rparr>)
   \<and> disarmed = disarmed\<lparr>lockdown := True,
                  lockdown := (hil_state (status0\<lparr>arming_state := ARMING_STATE_REBOOT\<rparr>)
                                = HIL_STATE_ON)\<rparr>"
proof -
  have run: "arming_state_transition (status0\<lparr>arming_state := ARMING_STATE_REBOOT\<rparr>)
       safety_disengaged ARMING_STATE_INIT (disarmed\<lparr>lockdown := True\<rparr>) 0
     = Inr (TRANSITION_DENIED, status0\<lparr>arming_state := ARMING_STATE_REBOOT\<rparr>, disarmed,
            [Warnx ''Invalid arming transition from ARMING_STATE_REBOOT to ARMING_STATE_INIT''])"
    by (simp add: arming_defs sample_defs)
  have denied: "TRANSITION_DENIED \<noteq> TRANSITION_CHANGED"
    by simp
  from not_changed_keeps_status [OF run denied] run show ?thesis
    by simp
qed

subsection \<open>C2: STANDBY needs initialised sensors\<close>

text \<open>
  With the sensors not initialised, a request for \<^verbatim>\<open>STANDBY\<close> from
  \<^verbatim>\<open>ARMED_ERROR\<close> is redirected to \<^verbatim>\<open>STANDBY_ERROR\<close> before the sensor check
  and returns \<^verbatim>\<open>TRANSITION_CHANGED\<close>; from \<^verbatim>\<open>STANDBY\<close> it returns
  \<^verbatim>\<open>TRANSITION_NOT_CHANGED\<close>. Neither is \<^verbatim>\<open>TRANSITION_DENIED\<close>.
\<close>

theorem standby_without_sensors_not_denied:
  "\<not> condition_system_sensors_initialized status0
   \<and> arming_state_transition (status0\<lparr>arming_state := ARMING_STATE_ARMED_ERROR\<rparr>)
        safety_engaged ARMING_STATE_STANDBY disarmed 0
     = Inr (TRANSITION_CHANGED, status0\<lparr>arming_state := ARMING_STATE_STANDBY_ERROR\<rparr>,
            disarmed, [])
   \<and> arming_state_transition (status0\<lparr>arming_state := ARMING_STATE_STANDBY\<rparr>)
        safety_engaged ARMING_STATE_STANDBY disarmed 0
     = Inr (TRANSITION_NOT_CHANGED, status0\<lparr>arming_state := ARMING_STATE_STANDBY\<rparr>,
            disarmed, [])"
  by (simp add: arming_defs sample_defs)

text \<open>
  C2, amended. With \<^verbatim>\<open>condition_system_sensors_initialized\<close> false, a request for
  \<^verbatim>\<open>STANDBY\<close> never changes the vehicle status when the current state is one of the
  seven defined states other than \<^verbatim>\<open>ARMED_ERROR\<close>, whatever the safety input, the
  HIL state and the table say: it returns \<^verbatim>\<open>TRANSITION_DENIED\<close> from every such
  state but \<^verbatim>\<open>STANDBY\<close> itself, where it returns \<^verbatim>\<open>TRANSITION_NOT_CHANGED\<close>.
\<close>

theorem standby_without_sensors:
  assumes "\<not> condition_system_sensors_initialized status"
      and "arming_state status \<noteq> ARMING_STATE_ARMED_ERROR"
      and "arming_state status \<noteq> ARMING_STATE_MAX"
  shows "\<exists>log.
           arming_state_transition status safety ARMING_STATE_STANDBY armd mavlink_fd
             = Inr (if arming_state status = ARMING_STATE_STANDBY
                    then TRANSITION_NOT_CHANGED else TRANSITION_DENIED,
                    status,
                    if arming_state status = ARMING_STATE_STANDBY
                    then armd else armd\<lparr>lockdown := (hil_state status = HIL_STATE_ON)\<rparr>,
                    log)"
  using assms
  by (cases "arming_state status"; cases "hil_state status") (simp_all add: arming_defs)

theorem standby_without_sensors_witness:
  "\<not> condition_system_sensors_initialized
        (status0\<lparr>arming_state := ARMING_STATE_ARMED, hil_state := HIL_STATE_ON\<rparr>)
   \<and> (\<exists>log.
        arming_state_transition
            (status0\<lparr>arming_state := ARMING_STATE_ARMED, hil_state := HIL_STATE_ON\<rparr>)
            safety_disengaged ARMING_STATE_STANDBY disarmed 0
          = Inr (TRANSITION_DENIED,
                 status0\<lparr>arming_state := ARMING_STATE_ARMED, hil_state := HIL_STATE_ON\<rparr>,
                 disarmed\<lparr>lockdown := True\<rparr>, log))"
proof -
  let ?s = "status0\<lparr>arming_state := ARMING_STATE_ARMED, hil_state := HIL_STATE_ON\<rparr>"
  have sensors: "\<not> condition_system_sensors_initialized ?s"
    by (simp add: sample_defs)
  have no_error: "arming_state ?s \<noteq> ARMING_STATE_ARMED_ERROR"
    by simp
  have defined: "arming_state ?s \<noteq> ARMING_STATE_MAX"
    by simp
  from standby_without_sensors [OF sensors no_error defined,
         where safety = safety_disengaged and armd = disarmed and mavlink_fd = 0]
    sensors
  show ?thesis
    by simp
qed

subsection \<open>C3: the safety switch gates ARMED\<close>

text \<open>
  C3. A requested transition to \<^verbatim>\<open>ARMED\<close>, that is a request for \<^verbatim>\<open>ARMED\<close>
  from another of the seven defined states (a request for the current state is the
  no-op of C7, settled before the table and the safety switch are looked at), is
  denied, and the vehicle status kept, unless the current state is
  \<^verbatim>\<open>IN_AIR_RESTORE\<close>, or HIL is on, or no safety switch is available, or the
  switch is available and off. In particular the request from \<^verbatim>\<open>STANDBY\<close>, out
  of HIL, with the switch present and engaged is denied; with the switch present and
  off it returns \<^verbatim>\<open>TRANSITION_CHANGED\<close>, commits \<^verbatim>\<open>ARMED\<close> and leaves
  \<^verbatim>\<open>armed\<close> and \<^verbatim>\<open>ready_to_arm\<close> both true.
\<close>

theorem armed_needs_safety_switch:
  "(arming_state status \<noteq> ARMING_STATE_ARMED \<and> arming_state status \<noteq> ARMING_STATE_MAX
      \<and> \<not> (arming_state status = ARMING_STATE_IN_AIR_RESTORE
            \<or> hil_state status = HIL_STATE_ON
            \<or> \<not> safety_switch_available safety
            \<or> (safety_switch_available safety \<and> safety_off safety))
     \<longrightarrow> (\<exists>log.
            arming_state_transition status safety ARMING_STATE_ARMED armd mavlink_fd
              = Inr (TRANSITION_DENIED, status, armd\<lparr>lockdown := False\<rparr>, log)))
   \<and> (arming_state status = ARMING_STATE_STANDBY \<and> hil_state status \<noteq> HIL_STATE_ON
        \<and> safety_switch_available safety \<and> \<not> safety_off safety
     \<longrightarrow> (\<exists>log.
            arming_state_transition status safety ARMING_STATE_ARMED armd mavlink_fd
              = Inr (TRANSITION_DENIED, status, armd\<lparr>lockdown := False\<rparr>, log)))
   \<and> (arming_state status = ARMING_STATE_STANDBY \<and> hil_state status \<noteq> HIL_STATE_ON
        \<and> safety_switch_available safety \<and> safety_off safety
     \<longrightarrow> (\<exists>armd'.
            arming_state_transition status safety ARMING_STATE_ARMED armd mavlink_fd
              = Inr (TRANSITION_CHANGED, status\<lparr>arming_state := ARMING_STATE_ARMED\<rparr>,
                     armd', [])
            \<and> armed armd' \<and> ready_to_arm armd'))"
  by (cases "arming_state status"; cases "hil_state status") (simp_all add: arming_defs)

theorem armed_needs_safety_switch_witness:
  "(\<exists>log.
      arming_state_transition (status0\<lparr>arming_state := ARMING_STATE_STANDBY\<rparr>)
          safety_engaged ARMING_STATE_ARMED disarmed 0
        = Inr (TRANSITION_DENIED, status0\<lparr>arming_state := ARMING_STATE_STANDBY\<rparr>,
               disarmed, log))
   \<and> (\<exists>armd'.
        arming_state_transition (status0\<lparr>arming_state := ARMING_STATE_STANDBY\<rparr>)
            safety_disengaged ARMING_STATE_ARMED disarmed 0
          = Inr (TRANSITION_CHANGED, status0\<lparr>arming_state := ARMING_STATE_ARMED\<rparr>,
                 armd', [])
        \<and> armed armd' \<and> ready_to_arm armd')"
  using armed_needs_safety_switch
          [where status = "status0\<lparr>arming_state := ARMING_STATE_STANDBY\<rparr>"
             and safety = safety_engaged and armd = disarmed and mavlink_fd = 0]
        armed_needs_safety_switch
          [where status = "status0\<lparr>arming_state := ARMING_STATE_STANDBY\<rparr>"
             and safety = safety_disengaged and armd = disarmed and mavlink_fd = 0]
  by (simp add: sample_defs)

subsection \<open>C5: no way from ARMED_ERROR to plain STANDBY\<close>

text \<open>
  C5. From \<^verbatim>\<open>ARMED_ERROR\<close> a request for \<^verbatim>\<open>STANDBY\<close> returns
  \<^verbatim>\<open>TRANSITION_CHANGED\<close> and commits \<^verbatim>\<open>STANDBY_ERROR\<close>, for every safety input
  (and every HIL state, sensor flag and armed record); the armed record comes back
  disarmed and not ready to arm.
\<close>

theorem armed_error_to_standby_error:
  assumes "arming_state status = ARMING_STATE_ARMED_ERROR"
  shows "arming_state_transition status safety ARMING_STATE_STANDBY armd mavlink_fd
           = Inr (TRANSITION_CHANGED,
                  status\<lparr>arming_state := ARMING_STATE_STANDBY_ERROR\<rparr>,
                  armd\<lparr>lockdown := (hil_state status = HIL_STATE_ON),
                        armed := False, ready_to_arm := False\<rparr>,
                  [])"
  using assms by (simp add: arming_defs)

theorem armed_error_to_standby_error_witness:
  "arming_state (status0\<lparr>arming_state := ARMING_STATE_ARMED_ERROR\<rparr>)
     = ARMING_STATE_ARMED_ERROR
   \<and> arming_state_transition (status0\<lparr>arming_state := ARMING_STATE_ARMED_ERROR\<rparr>)
        safety_engaged ARMING_STATE_STANDBY
        \<lparr> armed = True, ready_to_arm = False, lockdown = False \<rparr> 5
     = Inr (TRANSITION_CHANGED, status0\<lparr>arming_state := ARMING_STATE_STANDBY_ERROR\<rparr>,
            disarmed, [])"
proof -
  have cur: "arming_state (status0\<lparr>arming_state := ARMING_STATE_ARMED_ERROR\<rparr>)
               = ARMING_STATE_ARMED_ERROR"
    by simp
  from armed_error_to_standby_error [OF cur, where safety = safety_engaged
         and armd = "\<lparr> armed = True, ready_to_arm = False, lockdown = False \<rparr>"
         and mavlink_fd = 5]
  show ?thesis
    by (simp add: sample_defs)
qed

subsection \<open>C7: requesting the current state\<close>

text \<open>
  C7. Requesting the arming state the status already has returns
  \<^verbatim>\<open>TRANSITION_NOT_CHANGED\<close> and hands back the status and the armed record as they
  were, with no message sent, for every state (the eighth enumerator included: the
  table is not read), every safety input and every armed record.
\<close>

theorem arming_same_state_not_changed:
  "arming_state_transition (status\<lparr>arming_state := S\<rparr>) safety S armd mavlink_fd
     = Inr (TRANSITION_NOT_CHANGED, status\<lparr>arming_state := S\<rparr>, armd, [])"
  by (simp add: arming_state_transition_def)

theorem arming_same_state_not_changed_witness:
  "arming_state_transition (status0\<lparr>arming_state := ARMING_STATE_ARMED\<rparr>)
       safety_engaged ARMING_STATE_ARMED disarmed 3
     = Inr (TRANSITION_NOT_CHANGED, status0\<lparr>arming_state := ARMING_STATE_ARMED\<rparr>,
            disarmed, [])"
  using arming_same_state_not_changed
          [where status = status0 and S = ARMING_STATE_ARMED and safety = safety_engaged
             and armd = disarmed and mavlink_fd = 3]
  by simp

subsection \<open>C9: a requested state outside the seven\<close>

text \<open>
  C9. \<^verbatim>\<open>ARMING_STATE_MAX\<close> is a value of \<^verbatim>\<open>arming_state_t\<close>. Requested from
  any other state, it indexes row 7 of the seven-row table: the function reads
  outside the table instead of returning one of the three results.
\<close>

theorem arming_state_max_reads_out_of_bounds:
  assumes "arming_state status \<noteq> ARMING_STATE_MAX"
  shows "arming_state_transition status safety ARMING_STATE_MAX armd mavlink_fd
           = Inl Out_of_bounds_read"
  using assms by (simp add: arming_defs)

theorem arming_state_max_reads_out_of_bounds_witness:
  "arming_state status0 \<noteq> ARMING_STATE_MAX
   \<and> arming_state_transition status0 safety_disengaged ARMING_STATE_MAX disarmed 0
       = Inl Out_of_bounds_read"
proof -
  have cur: "arming_state status0 \<noteq> ARMING_STATE_MAX"
    by (simp add: sample_defs)
  from arming_state_max_reads_out_of_bounds [OF cur] cur show ?thesis
    by simp
qed

section \<open>Properties of the safety interlock\<close>

text \<open>
  C10. \<^verbatim>\<open>is_safe\<close> gives the same answer for any two vehicle statuses, and its
  answer is fixed by \<^verbatim>\<open>armed\<close>, \<^verbatim>\<open>lockdown\<close>, \<^verbatim>\<open>safety_switch_available\<close> and
  \<^verbatim>\<open>safety_off\<close>: inputs that agree on the four fields get the same answer.
\<close>

theorem is_safe_ignores_status:
  "is_safe status_a safety armd = is_safe status_b safety armd
   \<and> (armed armd = armed armd' \<and> lockdown armd = lockdown armd'
        \<and> safety_switch_available safety = safety_switch_available safety'
        \<and> safety_off safety = safety_off safety'
      \<longrightarrow> is_safe status_a safety armd = is_safe status_b safety' armd')"
  by (simp add: is_safe_def)

theorem is_safe_ignores_status_witness:
  "armed disarmed = armed (disarmed\<lparr>ready_to_arm := True\<rparr>)
   \<and> lockdown disarmed = lockdown (disarmed\<lparr>ready_to_arm := True\<rparr>)
   \<and> is_safe status0 safety_disengaged disarmed
       = is_safe (status0\<lparr>arming_state := ARMING_STATE_ARMED, hil_state := HIL_STATE_ON\<rparr>)
           safety_disengaged (disarmed\<lparr>ready_to_arm := True\<rparr>)"
proof -
  have same_armed: "armed disarmed = armed (disarmed\<lparr>ready_to_arm := True\<rparr>)"
    by simp
  have same_lockdown: "lockdown disarmed = lockdown (disarmed\<lparr>ready_to_arm := True\<rparr>)"
    by simp
  from is_safe_ignores_status
          [where status_a = status0
             and status_b = "status0\<lparr>arming_state := ARMING_STATE_ARMED,
                                     hil_state := HIL_STATE_ON\<rparr>"
             and safety = safety_disengaged and safety' = safety_disengaged
             and armd = disarmed and armd' = "disarmed\<lparr>ready_to_arm := True\<rparr>"]
    same_armed same_lockdown
  show ?thesis
    by blast
qed

section \<open>Properties of the main state selector\<close>

subsection \<open>C6: ALTCTL\<close>

text \<open>
  A rotary-wing vehicle with a valid local position but neither a valid local altitude
  nor a valid global position: the request for \<^verbatim>\<open>ALTCTL\<close> is denied, although
  position validity is present.
\<close>

theorem altctl_denied_with_local_position:
  "condition_local_position_valid (status0\<lparr>condition_local_position_valid := True\<rparr>)
   \<and> main_state_transition (status0\<lparr>condition_local_position_valid := True\<rparr>)
        MAIN_STATE_ALTCTL
     = (TRANSITION_DENIED, status0\<lparr>condition_local_position_valid := True\<rparr>)"
  by (simp add: main_state_transition_def sample_defs)

text \<open>
  C6, amended. A request for \<^verbatim>\<open>ALTCTL\<close> is granted (the result is
  \<^verbatim>\<open>TRANSITION_CHANGED\<close> or \<^verbatim>\<open>TRANSITION_NOT_CHANGED\<close>) exactly when the vehicle
  is not rotary-wing, or the local altitude or the global position is valid. A request
  that returns \<^verbatim>\<open>TRANSITION_DENIED\<close>, for whichever main state, leaves the status,
  and so \<^verbatim>\<open>main_state\<close>, as it was.
\<close>

theorem altctl_granted_iff:
  "(fst (main_state_transition status MAIN_STATE_ALTCTL) \<in>
        {TRANSITION_CHANGED, TRANSITION_NOT_CHANGED}
      \<longleftrightarrow> (\<not> is_rotary_wing status \<or> condition_local_altitude_valid status
            \<or> condition_global_position_valid status))
   \<and> (fst (main_state_transition status MAIN_STATE_ALTCTL) \<notin>
        {TRANSITION_CHANGED, TRANSITION_NOT_CHANGED}
      \<longrightarrow> main_state_transition status MAIN_STATE_ALTCTL = (TRANSITION_DENIED, status))
   \<and> (fst (main_state_transition status new_main_state) = TRANSITION_DENIED
      \<longrightarrow> snd (main_state_transition status new_main_state) = status)"
  by (cases new_main_state) (simp_all add: main_state_transition_def Let_def)

theorem altctl_granted_iff_witness:
  "(fst (main_state_transition (status0\<lparr>condition_local_altitude_valid := True\<rparr>)
           MAIN_STATE_ALTCTL) \<in> {TRANSITION_CHANGED, TRANSITION_NOT_CHANGED})
   \<and> main_state_transition status0 MAIN_STATE_ALTCTL = (TRANSITION_DENIED, status0)
   \<and> fst (main_state_transition status0 MAIN_STATE_AUTO_RTL) = TRANSITION_DENIED
   \<and> snd (main_state_transition status0 MAIN_STATE_AUTO_RTL) = status0"
  using altctl_granted_iff
          [where status = "status0\<lparr>condition_local_altitude_valid := True\<rparr>"
             and new_main_state = MAIN_STATE_AUTO_RTL]
        altctl_granted_iff
          [where status = status0 and new_main_state = MAIN_STATE_AUTO_RTL]
  by (simp add: sample_defs main_state_transition_def)

section \<open>Properties of the HIL state transition\<close>

text \<open>
  C8. With HIL on, a request to switch it off returns \<^verbatim>\<open>TRANSITION_DENIED\<close> and
  hands back the status as it was, so \<^verbatim>\<open>hil_state\<close> stays on, whatever the arming
  state, the device directory and the clock; the one effect is the message.
\<close>

theorem hil_on_to_off_denied:
  assumes "hil_state current_status = HIL_STATE_ON"
  shows "hil_state_transition HIL_STATE_OFF status_pub current_status mavlink_fd
             dev_dir dev_open dev_ioctl now
           = (TRANSITION_DENIED, current_status,
              [Mavlink_log_critical mavlink_fd ''#audio: Not switching off HIL (safety)''])"
  using assms by (simp add: hil_state_transition_def)

theorem hil_on_to_off_denied_witness:
  "hil_state (status0\<lparr>arming_state := ARMING_STATE_ARMED, hil_state := HIL_STATE_ON\<rparr>)
     = HIL_STATE_ON
   \<and> hil_state_transition HIL_STATE_OFF 1
        (status0\<lparr>arming_state := ARMING_STATE_ARMED, hil_state := HIL_STATE_ON\<rparr>) 2
        (Some [''ttyS0'', ''baro0'']) (\<lambda>d. True) (\<lambda>d. True) 1000
     = (TRANSITION_DENIED,
        status0\<lparr>arming_state := ARMING_STATE_ARMED, hil_state := HIL_STATE_ON\<rparr>,
        [Mavlink_log_critical 2 ''#audio: Not switching off HIL (safety)''])"
proof -
  have on: "hil_state (status0\<lparr>arming_state := ARMING_STATE_ARMED,
                               hil_state := HIL_STATE_ON\<rparr>) = HIL_STATE_ON"
    by simp
  from hil_on_to_off_denied [OF on] on show ?thesis
    by simp
qed

section \<open>Properties of the navigation and failsafe resolver\<close>

text \<open>
  C4. Whenever \<^verbatim>\<open>set_nav_state\<close> leaves the failsafe flag set, the navigation state
  it leaves is the one of the cascade: \<^verbatim>\<open>AUTO_RTL\<close> if global and home position are
  valid, else \<^verbatim>\<open>LAND\<close> if the local position is valid, else \<^verbatim>\<open>DESCEND\<close> if the
  local altitude is valid, else \<^verbatim>\<open>TERMINATION\<close>.
\<close>

theorem failsafe_priority_cascade:
  assumes "failsafe (snd (set_nav_state status))"
  shows "nav_state (snd (set_nav_state status)) =
           (if condition_global_position_valid status
               \<and> condition_home_position_valid status
            then NAVIGATION_STATE_AUTO_RTL
            else if condition_local_position_valid status then NAVIGATION_STATE_LAND
            else if condition_local_altitude_valid status then NAVIGATION_STATE_DESCEND
            else NAVIGATION_STATE_TERMINATION)"
  using assms
  by (cases "main_state status")
     (auto simp add: set_nav_state_def Let_def split: if_splits)

theorem failsafe_priority_cascade_witness:
  "failsafe (snd (set_nav_state
       (status0\<lparr>arming_state := ARMING_STATE_ARMED, main_state := MAIN_STATE_AUTO_RTL,
                condition_global_position_valid := True,
                condition_local_altitude_valid := True\<rparr>)))
   \<and> nav_state (snd (set_nav_state
       (status0\<lparr>arming_state := ARMING_STATE_ARMED, main_state := MAIN_STATE_AUTO_RTL,
                condition_global_position_valid := True,
                condition_local_altitude_valid := True\<rparr>)))
     = NAVIGATION_STATE_DESCEND"
proof -
  let ?s = "status0\<lparr>arming_state := ARMING_STATE_ARMED, main_state := MAIN_STATE_AUTO_RTL,
                     condition_global_position_valid := True,
                     condition_local_altitude_valid := True\<rparr>"
  have engaged: "failsafe (snd (set_nav_state ?s))"
    by (simp add: set_nav_state_def Let_def sample_defs)
  from failsafe_priority_cascade [OF engaged] engaged show ?thesis
    by (simp add: sample_defs)
qed

end
